theory Spec2Isabelle
  imports Main "HOL-Library.Sublist"
begin

section \<open>The odometer scanner component\<close>

text \<open>
  The repository holds two copies of one React component, \<^verbatim>\<open>OdometerOCRSystem\<close>:
  \<^verbatim>\<open>src/src/ocr.js\<close> (definitions with the suffix \<open>_ocr\<close>) and
  \<^verbatim>\<open>src/unnamed/part_000\<close> (suffix \<open>_p0\<close>). A function whose body is the same
  in both files is embedded once, without a suffix.

  The component's hooks (\<^verbatim>\<open>useState\<close>, \<^verbatim>\<open>useRef\<close>) are the fields of one record
  that every handler takes and returns. What the browser answers (the outcome of
  \<^verbatim>\<open>getUserMedia\<close>, the video element's events, the canvas, the clock) is an argument
  of the handler.
\<close>

subsection \<open>Data\<close>

text \<open>A \<^verbatim>\<open>MediaStreamTrack\<close> is \<^verbatim>\<open>live\<close> until \<^verbatim>\<open>track.stop()\<close> ends it.\<close>

datatype readyState = Live | Ended

text \<open>
  The \<^verbatim>\<open>video\<close> element behind \<^verbatim>\<open>videoRef.current\<close>. A \<^verbatim>\<open>MediaStream\<close> is
  named by its handle, the index of its tracks in the field \<open>media\<close> below. The decoded
  dimensions are the browser's: the component reads them and never writes them.
\<close>

record video_element =
  srcObject :: "nat option"
  videoWidth :: nat
  videoHeight :: nat

text \<open>
  An entry of \<^verbatim>\<open>readings\<close>: \<^verbatim>\<open>{id, reading, timestamp, imageSrc}\<close>. The field
  \<^verbatim>\<open>id\<close> is \<open>id_r\<close> here (\<open>id\<close> is HOL's identity function).
\<close>

record capture_record =
  id_r :: nat
  reading :: nat
  timestamp :: string
  imageSrc :: string

text \<open>
  The component: its six state hooks, its two refs, and \<open>media\<close>, the tracks of every
  \<^verbatim>\<open>MediaStream\<close> the browser has handed out so far (handle \<open>h\<close> is position \<open>h\<close>).
\<close>

record state =
  isScanning :: bool
  isProcessing :: bool
  capturedImage :: "string option"
  ocrResult :: string
  readings :: "capture_record list"
  error :: "string option"
  videoRef :: "video_element option"
  streamRef :: "nat option"
  media :: "readyState list list"

text \<open>A thrown value: \<^verbatim>\<open>err.name\<close> and \<^verbatim>\<open>err.message\<close>, either of which may be undefined.\<close>

record js_error =
  err_name :: "string option"
  err_message :: "string option"

definition Error :: "string \<Rightarrow> js_error" where
  "Error msg = \<lparr>err_name = Some ''Error'', err_message = Some msg\<rparr>"

text \<open>The component as mounted: every hook at its initial value, no stream handed out.\<close>

definition initial_state :: state where
  "initial_state =
     \<lparr>isScanning = False, isProcessing = False, capturedImage = None, ocrResult = [],
      readings = [], error = None, videoRef = None, streamRef = None, media = []\<rparr>"

subsection \<open>Streams\<close>

text \<open>\<^verbatim>\<open>stream.getTracks().forEach(track => track.stop())\<close> on the stream with handle \<open>h\<close>.\<close>

definition stop_tracks :: "nat \<Rightarrow> readyState list list \<Rightarrow> readyState list list" where
  "stop_tracks h m = (if h < length m then m[h := map (\<lambda>_. Ended) (m ! h)] else m)"

text \<open>A stream holds the camera while one of its tracks is live.\<close>

definition stream_active :: "readyState list list \<Rightarrow> nat \<Rightarrow> bool" where
  "stream_active m h = (h < length m \<and> Live \<in> set (m ! h))"

definition active_streams :: "readyState list list \<Rightarrow> nat list" where
  "active_streams m = filter (stream_active m) [0..<length m]"

subsection \<open>stopCamera (the same in both files)\<close>

text \<open>
  \<^verbatim>\<open>
  const stopCamera = () => {
    if (streamRef.current) {
      streamRef.current.getTracks().forEach(track => track.stop());
      streamRef.current = null;
    }
    if (videoRef.current) {
      videoRef.current.srcObject = null;
    }
    setIsScanning(false);
  };
  \<close>
\<close>

definition release_stream :: "state \<Rightarrow> state" where
  "release_stream st =
     (case streamRef st of
        None \<Rightarrow> st
      | Some h \<Rightarrow> st\<lparr>media := stop_tracks h (media st), streamRef := None\<rparr>)"

definition detach_video :: "state \<Rightarrow> state" where
  "detach_video st =
     (case videoRef st of
        None \<Rightarrow> st
      | Some v \<Rightarrow> st\<lparr>videoRef := Some (v\<lparr>srcObject := None\<rparr>)\<rparr>)"

definition stopCamera :: "state \<Rightarrow> state" where
  "stopCamera st = (detach_video (release_stream st))\<lparr>isScanning := False\<rparr>"

text \<open>No stream held, nothing bound to the preview, not scanning.\<close>

definition idle :: "state \<Rightarrow> bool" where
  "idle st =
     (streamRef st = None \<and> \<not> isScanning st \<and>
      (case videoRef st of None \<Rightarrow> True | Some v \<Rightarrow> srcObject v = None))"

subsection \<open>deleteReading\<close>

text \<open>
  \<^verbatim>\<open>setReadings(prevReadings => prevReadings.filter(reading => reading.id !== id))\<close>
  in part_000; ocr.js filters \<^verbatim>\<open>readings\<close>, the list of the render whose button was
  clicked, which is the current list when the handler runs.
\<close>

definition deleteReading :: "nat \<Rightarrow> state \<Rightarrow> state" where
  "deleteReading i st = st\<lparr>readings := filter (\<lambda>r. id_r r \<noteq> i) (readings st)\<rparr>"

subsection \<open>exportReadings\<close>

text \<open>\<^verbatim>\<open>Number.prototype.toString\<close> on a natural number: its decimal digits.\<close>

definition digit :: "nat \<Rightarrow> char" where
  "digit d = ''0123456789'' ! d"

function decimal :: "nat \<Rightarrow> string" where
  "decimal n = (if n < 10 then [digit n] else decimal (n div 10) @ [digit (n mod 10)])"
  by pat_completeness auto
termination
  by (relation "measure id") auto

declare decimal.simps [simp del]

text \<open>\<^verbatim>\<open>Array.prototype.join('\n')\<close>.\<close>

fun join_nl :: "string list \<Rightarrow> string" where
  "join_nl [] = []"
| "join_nl [x] = x"
| "join_nl (x # y # ys) = x @ CHR 0x0A # join_nl (y # ys)"

text \<open>The row of a record: \<^verbatim>\<open>`${r.timestamp},${r.reading}`\<close>.\<close>

definition csv_row :: "capture_record \<Rightarrow> string" where
  "csv_row r = timestamp r @ '','' @ decimal (reading r)"

text \<open>
  The text handed to \<^verbatim>\<open>new Blob\<close>. part_000 pushes the header and the rows into one
  array and joins it; ocr.js joins the rows and puts the header and a newline in front.
  The download that follows (an anchor element, an object URL) is not part of the model.
\<close>

definition exportReadings_p0 :: "state \<Rightarrow> string" where
  "exportReadings_p0 st = join_nl (''Timestamp,Reading'' # map csv_row (readings st))"

definition exportReadings_ocr :: "state \<Rightarrow> string" where
  "exportReadings_ocr st =
     ''Timestamp,Reading'' @ CHR 0x0A # join_nl (map csv_row (readings st))"

text \<open>
  The lines of a text: the pieces between newlines (\<open>split_nl\<close> is
  \<^verbatim>\<open>String.prototype.split('\n')\<close>), where a newline that ends the text ends its last
  line and starts no further one.
\<close>

fun split_nl :: "string \<Rightarrow> string list" where
  "split_nl [] = [[]]"
| "split_nl (c # cs) =
     (if c = CHR 0x0A then [] # split_nl cs
      else (case split_nl cs of [] \<Rightarrow> [[c]] | l # ls \<Rightarrow> (c # l) # ls))"

definition text_lines :: "string \<Rightarrow> string list" where
  "text_lines s = (let ps = split_nl s in if last ps = [] then butlast ps else ps)"

subsection \<open>captureAndProcess\<close>

text \<open>
  What the browser answers during a capture. \<open>canvas\<close> is the outcome of the canvas
  calls (\<^verbatim>\<open>createElement\<close>, \<^verbatim>\<open>getContext\<close>, \<^verbatim>\<open>drawImage\<close>, \<^verbatim>\<open>toDataURL\<close>): the data URL,
  or the exception one of them raised (\<^verbatim>\<open>getContext\<close> answers \<^verbatim>\<open>null\<close> when the canvas
  cannot be allocated, and \<^verbatim>\<open>ctx.drawImage\<close> is then a \<^verbatim>\<open>TypeError\<close>). \<open>recognized\<close> is
  the outcome of the recognition step after the one-second delay: the reading
  \<^verbatim>\<open>Math.floor(Math.random() * 100000)\<close>, or an exception raised at that point. The
  timer and \<^verbatim>\<open>Math.random\<close> raise none themselves; \<open>Inl\<close> is the path of the handler
  that surrounds them. \<open>now\<close> is \<^verbatim>\<open>Date.now()\<close> and \<open>localeString\<close> is
  \<^verbatim>\<open>new Date().toLocaleString()\<close>.
\<close>

record capture_env =
  canvas :: "js_error + string"
  recognized :: "js_error + nat"
  now :: nat
  localeString :: string

text \<open>
  A capture runs up to its \<^verbatim>\<open>await\<close> and is resumed when the delay has passed. Up to
  the \<^verbatim>\<open>await\<close> it has returned (\<open>Finished\<close>), has let an exception out (\<open>Threw\<close>), or is
  waiting with the image it took (\<open>Awaiting\<close>).
\<close>

datatype capture_step = Finished state | Threw js_error state | Awaiting state string

text \<open>\<^verbatim>\<open>err.message || d\<close>: an undefined or empty message gives the default.\<close>

definition message_or :: "string \<Rightarrow> js_error \<Rightarrow> string" where
  "message_or d err =
     (case err_message err of None \<Rightarrow> d | Some m \<Rightarrow> if m = [] then d else m)"

text \<open>
  \<^verbatim>\<open>
  const newReading = {
    id: Date.now(),
    reading: simulatedReading,
    timestamp: new Date().toLocaleString(),
    imageSrc: imageData
  };
  \<close>
\<close>

definition newReading :: "capture_env \<Rightarrow> nat \<Rightarrow> string \<Rightarrow> capture_record" where
  "newReading env n img =
     \<lparr>id_r = now env, reading = n, timestamp = localeString env, imageSrc = img\<rparr>"

paragraph \<open>part_000\<close>

text \<open>
  \<^verbatim>\<open>
  if (!videoRef.current || !videoRef.current.videoWidth) {
    setError('Camera not ready. Please try again.');
    return;
  }
  try {
    setIsProcessing(true); setError(null);
    ... canvas ...; setCapturedImage(imageData);
    await new Promise(resolve => setTimeout(resolve, 1000));
    const simulatedReading = Math.floor(Math.random() * 100000);
    setOcrResult(simulatedReading.toString());
    setReadings(prevReadings => [newReading, ...prevReadings]);
  } catch (err) {
    setError('Failed to capture and process image: ' + (err.message || 'Unknown error'));
  } finally {
    setIsProcessing(false);
    stopCamera();
  }
  \<close>
\<close>

definition capture_catch_p0 :: "js_error \<Rightarrow> state \<Rightarrow> state" where
  "capture_catch_p0 err st =
     st\<lparr>error := Some (''Failed to capture and process image: '' @ message_or ''Unknown error'' err)\<rparr>"

definition capture_finally_p0 :: "state \<Rightarrow> state" where
  "capture_finally_p0 st = stopCamera (st\<lparr>isProcessing := False\<rparr>)"

definition captureAndProcess_begin_p0 :: "capture_env \<Rightarrow> state \<Rightarrow> capture_step" where
  "captureAndProcess_begin_p0 env st =
     (if (case videoRef st of None \<Rightarrow> True | Some v \<Rightarrow> videoWidth v = 0)
      then Finished (st\<lparr>error := Some ''Camera not ready. Please try again.''\<rparr>)
      else
        let st1 = st\<lparr>isProcessing := True, error := None\<rparr> in
        (case canvas env of
           Inl err \<Rightarrow> Finished (capture_finally_p0 (capture_catch_p0 err st1))
         | Inr imageData \<Rightarrow> Awaiting (st1\<lparr>capturedImage := Some imageData\<rparr>) imageData))"

definition captureAndProcess_resume_p0 :: "capture_env \<Rightarrow> string \<Rightarrow> state \<Rightarrow> state" where
  "captureAndProcess_resume_p0 env imageData st =
     capture_finally_p0
       (case recognized env of
          Inl err \<Rightarrow> capture_catch_p0 err st
        | Inr n \<Rightarrow>
            st\<lparr>ocrResult := decimal n,
               readings := newReading env n imageData # readings st\<rparr>)"

text \<open>A capture that nothing interrupts during its delay; the last field is what the
  caller sees: \<open>None\<close> when the returned promise is fulfilled, the exception when it is
  rejected.\<close>

definition captureAndProcess_p0 :: "capture_env \<Rightarrow> state \<Rightarrow> state \<times> js_error option" where
  "captureAndProcess_p0 env st =
     (case captureAndProcess_begin_p0 env st of
        Finished s \<Rightarrow> (s, None)
      | Threw err s \<Rightarrow> (s, Some err)
      | Awaiting s imageData \<Rightarrow> (captureAndProcess_resume_p0 env imageData s, None))"

paragraph \<open>ocr.js\<close>

text \<open>
  \<^verbatim>\<open>
  if (!videoRef.current) return;
  setIsProcessing(true);
  ... canvas ...; setCapturedImage(imageData);
  try {
    await new Promise(resolve => setTimeout(resolve, 1000));
    const simulatedReading = Math.floor(Math.random() * 100000);
    setOcrResult(simulatedReading.toString());
    setReadings([newReading, ...readings]);
  } catch (err) {
    setError('Error processing image - please try again');
  }
  setIsProcessing(false);
  stopCamera();
  \<close>
  The canvas calls stand before the \<^verbatim>\<open>try\<close>: an exception of theirs leaves the
  function. \<^verbatim>\<open>readings\<close> is the list of the render in which the handler was made, the
  argument \<open>seen\<close> of the resumption.
\<close>

definition captureAndProcess_begin_ocr :: "capture_env \<Rightarrow> state \<Rightarrow> capture_step" where
  "captureAndProcess_begin_ocr env st =
     (case videoRef st of
        None \<Rightarrow> Finished st
      | Some v \<Rightarrow>
          let st1 = st\<lparr>isProcessing := True\<rparr> in
          (case canvas env of
             Inl err \<Rightarrow> Threw err st1
           | Inr imageData \<Rightarrow> Awaiting (st1\<lparr>capturedImage := Some imageData\<rparr>) imageData))"

definition captureAndProcess_resume_ocr ::
    "capture_env \<Rightarrow> string \<Rightarrow> capture_record list \<Rightarrow> state \<Rightarrow> state" where
  "captureAndProcess_resume_ocr env imageData seen st =
     stopCamera
       ((case recognized env of
           Inl err \<Rightarrow> st\<lparr>error := Some ''Error processing image - please try again''\<rparr>
         | Inr n \<Rightarrow>
             st\<lparr>ocrResult := decimal n, readings := newReading env n imageData # seen\<rparr>)
        \<lparr>isProcessing := False\<rparr>)"

definition captureAndProcess_ocr :: "capture_env \<Rightarrow> state \<Rightarrow> state \<times> js_error option" where
  "captureAndProcess_ocr env st =
     (case captureAndProcess_begin_ocr env st of
        Finished s \<Rightarrow> (s, None)
      | Threw err s \<Rightarrow> (s, Some err)
      | Awaiting s imageData \<Rightarrow>
          (captureAndProcess_resume_ocr env imageData (readings st) s, None))"




subsection \<open>startCamera\<close>

text \<open>
  What the browser answers during a start: whether \<^verbatim>\<open>navigator.mediaDevices.getUserMedia\<close>
  exists, \<^verbatim>\<open>window.location\<close>, the outcome of \<^verbatim>\<open>getUserMedia\<close> (the number of tracks of
  the new stream, all live, or the rejection), the time in milliseconds after the stream
  was bound to the video element at which \<^verbatim>\<open>loadedmetadata\<close> and \<^verbatim>\<open>error\<close> fire there
  (\<open>None\<close>: the event never fires), and the rejection of \<^verbatim>\<open>play()\<close> (\<open>None\<close>: it is
  fulfilled).
\<close>

record start_env =
  has_getUserMedia :: bool
  protocol :: string
  hostname :: string
  getUserMedia :: "js_error + nat"
  metadata_at :: "nat option"
  error_at :: "nat option"
  play :: "js_error option"

text \<open>The new stream gets the next handle and becomes \<^verbatim>\<open>streamRef.current\<close>.\<close>

definition acquire :: "nat \<Rightarrow> state \<Rightarrow> state" where
  "acquire n st =
     st\<lparr>media := media st @ [replicate n Live], streamRef := Some (length (media st))\<rparr>"

text \<open>\<^verbatim>\<open>videoRef.current.srcObject = stream\<close>.\<close>

definition bind_video :: "video_element \<Rightarrow> state \<Rightarrow> state" where
  "bind_video v st = st\<lparr>videoRef := Some (v\<lparr>srcObject := streamRef st\<rparr>)\<rparr>"

text \<open>How the promise of the first frame settles, and when (milliseconds).\<close>

datatype wait_result = Resolved nat | Rejected js_error nat


paragraph \<open>part_000\<close>

text \<open>
  \<^verbatim>\<open>
  await new Promise((resolve, reject) => {
    videoRef.current.onloadedmetadata = resolve;
    videoRef.current.onerror = reject;
    const timeoutId = setTimeout(() => {
      reject(new Error('Video stream timed out'));
    }, 5000);
    videoRef.current.onloadedmetadata = () => { clearTimeout(timeoutId); resolve(); };
  });
  \<close>
  The promise settles with whatever comes first: \<^verbatim>\<open>loadedmetadata\<close>, \<^verbatim>\<open>error\<close> (whose
  handler rejects with the event, an object with neither name nor message), or the timer.
  An event needs to fire before the 5000th millisecond to precede the timer, and
  \<^verbatim>\<open>loadedmetadata\<close> precedes an \<^verbatim>\<open>error\<close> of the same millisecond.
\<close>

definition video_error_event :: js_error where
  "video_error_event = \<lparr>err_name = None, err_message = None\<rparr>"

definition first_frame_wait_p0 :: "start_env \<Rightarrow> wait_result" where
  "first_frame_wait_p0 env =
     (let timed_out = Rejected (Error ''Video stream timed out'') 5000 in
      case (metadata_at env, error_at env) of
        (None, None) \<Rightarrow> timed_out
      | (Some tm, None) \<Rightarrow> if tm < 5000 then Resolved tm else timed_out
      | (None, Some te) \<Rightarrow> if te < 5000 then Rejected video_error_event te else timed_out
      | (Some tm, Some te) \<Rightarrow>
          if tm < 5000 \<and> tm \<le> te then Resolved tm
          else if te < 5000 then Rejected video_error_event te
          else timed_out)"

text \<open>
  \<^verbatim>\<open>
  } catch (err) {
    let errorMessage = 'Error accessing camera: ';
    if (err.name === 'NotAllowedError') { errorMessage += 'Camera permission denied. ...'; }
    else if (err.name === 'NotFoundError') { errorMessage += 'No camera found on this device.'; }
    else if (err.name === 'NotReadableError') { errorMessage += 'Camera is already in use ...'; }
    else { errorMessage += err.message || 'Unknown error occurred'; }
    setError(errorMessage);
    setIsScanning(false);
    if (streamRef.current) {
      streamRef.current.getTracks().forEach(track => track.stop());
      streamRef.current = null;
    }
    if (videoRef.current) { videoRef.current.srcObject = null; }
  }
  \<close>
\<close>

definition errorMessage_p0 :: "js_error \<Rightarrow> string" where
  "errorMessage_p0 err =
     ''Error accessing camera: '' @
     (if err_name err = Some ''NotAllowedError''
        then ''Camera permission denied. Please allow camera access.''
      else if err_name err = Some ''NotFoundError''
        then ''No camera found on this device.''
      else if err_name err = Some ''NotReadableError''
        then ''Camera is already in use by another application.''
      else message_or ''Unknown error occurred'' err)"

definition start_catch_p0 :: "js_error \<Rightarrow> state \<Rightarrow> state" where
  "start_catch_p0 err st =
     detach_video (release_stream (st\<lparr>error := Some (errorMessage_p0 err), isScanning := False\<rparr>))"

text \<open>
  \<^verbatim>\<open>if (streamRef.current) { streamRef.current.getTracks().forEach(track => track.stop()); }\<close>
  before the new request: the old tracks end, the ref keeps the old stream.
\<close>

definition stop_old_tracks :: "state \<Rightarrow> state" where
  "stop_old_tracks st =
     (case streamRef st of
        None \<Rightarrow> st
      | Some h \<Rightarrow> st\<lparr>media := stop_tracks h (media st)\<rparr>)"

text \<open>
  The states a start passes through, in order, the last one being the state it leaves:
  after the three resets, after the old tracks are stopped, after the new stream is
  stored, after it is bound to the video element, and after \<^verbatim>\<open>setIsScanning(true)\<close> or
  the \<^verbatim>\<open>catch\<close> block.
\<close>

definition startCamera_steps_p0 :: "start_env \<Rightarrow> state \<Rightarrow> state list" where
  "startCamera_steps_p0 env st =
     (let st0 = st\<lparr>error := None, capturedImage := None, ocrResult := []\<rparr> in
      if \<not> has_getUserMedia env
        then [st0, start_catch_p0 (Error ''Camera API is not supported in this browser'') st0]
      else if protocol env \<noteq> ''https:'' \<and> hostname env \<noteq> ''localhost''
        then [st0, start_catch_p0 (Error ''Camera access requires HTTPS (except on localhost)'') st0]
      else
        let st1 = stop_old_tracks st0 in
        (case getUserMedia env of
           Inl err \<Rightarrow> [st0, st1, start_catch_p0 err st1]
         | Inr n \<Rightarrow>
             let st2 = acquire n st1 in
             (case videoRef st2 of
                None \<Rightarrow> [st0, st1, st2, start_catch_p0 (Error ''Video element not found'') st2]
              | Some v \<Rightarrow>
                  let st3 = bind_video v st2 in
                  (case first_frame_wait_p0 env of
                     Rejected err t \<Rightarrow> [st0, st1, st2, st3, start_catch_p0 err st3]
                   | Resolved t \<Rightarrow>
                       (case play env of
                          Some err \<Rightarrow> [st0, st1, st2, st3, start_catch_p0 err st3]
                        | None \<Rightarrow> [st0, st1, st2, st3, st3\<lparr>isScanning := True\<rparr>])))))"

definition startCamera_p0 :: "start_env \<Rightarrow> state \<Rightarrow> state" where
  "startCamera_p0 env st = last (startCamera_steps_p0 env st)"

paragraph \<open>ocr.js\<close>

text \<open>
  \<^verbatim>\<open>
  try {
    setError(null);
    const stream = await navigator.mediaDevices.getUserMedia({...});
    streamRef.current = stream;
    if (videoRef.current) {
      videoRef.current.srcObject = stream;
      await new Promise((resolve) => {
        videoRef.current.onloadedmetadata = () => { resolve(); };
      });
      await videoRef.current.play();
      setIsScanning(true);
    } else {
      throw new Error('Video element not initialized');
    }
  } catch (err) {
    setError(`Error accessing camera: ${err.message}`);
    setIsScanning(false);
  }
  \<close>
  Only \<^verbatim>\<open>loadedmetadata\<close> settles the promise of the first frame here: when the event
  never fires, the \<^verbatim>\<open>await\<close> never returns and the start stays where it is (\<open>Forever\<close>).
\<close>

datatype settled = Done state | Forever state

fun state_of :: "settled \<Rightarrow> state" where
  "state_of (Done st) = st"
| "state_of (Forever st) = st"

definition start_catch_ocr :: "js_error \<Rightarrow> state \<Rightarrow> state" where
  "start_catch_ocr err st =
     st\<lparr>error := Some (''Error accessing camera: '' @
                        (case err_message err of None \<Rightarrow> ''undefined'' | Some m \<Rightarrow> m)),
        isScanning := False\<rparr>"

definition startCamera_ocr :: "start_env \<Rightarrow> state \<Rightarrow> settled" where
  "startCamera_ocr env st =
     (let st0 = st\<lparr>error := None\<rparr> in
      case getUserMedia env of
        Inl err \<Rightarrow> Done (start_catch_ocr err st0)
      | Inr n \<Rightarrow>
          let st1 = acquire n st0 in
          (case videoRef st1 of
             Some v \<Rightarrow>
               let st2 = bind_video v st1 in
               (case metadata_at env of
                  None \<Rightarrow> Forever st2
                | Some tm \<Rightarrow>
                    (case play env of
                       Some err \<Rightarrow> Done (start_catch_ocr err st2)
                     | None \<Rightarrow> Done (st2\<lparr>isScanning := True\<rparr>)))
           | None \<Rightarrow> Done (start_catch_ocr (Error ''Video element not initialized'') st1)))"


subsection \<open>Sequences of operations\<close>

datatype op = Start start_env | Stop

text \<open>Every state the part_000 component passes through while it runs the operations.\<close>

fun trace_p0 :: "op list \<Rightarrow> state \<Rightarrow> state list" where
  "trace_p0 [] st = [st]"
| "trace_p0 (Start env # ops) st =
     st # startCamera_steps_p0 env st @ trace_p0 ops (startCamera_p0 env st)"
| "trace_p0 (Stop # ops) st = st # trace_p0 ops (stopCamera st)"

fun run_p0 :: "op list \<Rightarrow> state \<Rightarrow> state" where
  "run_p0 [] st = st"
| "run_p0 (Start env # ops) st = run_p0 ops (startCamera_p0 env st)"
| "run_p0 (Stop # ops) st = run_p0 ops (stopCamera st)"

fun run_ocr :: "op list \<Rightarrow> state \<Rightarrow> state" where
  "run_ocr [] st = st"
| "run_ocr (Start env # ops) st = run_ocr ops (state_of (startCamera_ocr env st))"
| "run_ocr (Stop # ops) st = run_ocr ops (stopCamera st)"

text \<open>Every live stream is the one the component holds in \<^verbatim>\<open>streamRef\<close>.\<close>

definition owned :: "state \<Rightarrow> bool" where
  "owned st = (\<forall>h < length (media st). stream_active (media st) h \<longrightarrow> streamRef st = Some h)"

subsection \<open>Concrete states and answers of the browser\<close>


text \<open>Scanning: one stream with one live video track, bound to the preview, a frame of
  1280 by 720 decoded.\<close>

definition scanning_example :: state where
  "scanning_example =
     \<lparr>isScanning = True, isProcessing = False, capturedImage = None, ocrResult = [],
      readings = [], error = None,
      videoRef = Some \<lparr>srcObject = Some 0, videoWidth = 1280, videoHeight = 720\<rparr>,
      streamRef = Some 0, media = [[Live]]\<rparr>"


definition two_readings :: state where
  "two_readings = initial_state\<lparr>readings :=
     [\<lparr>id_r = 1793582881000, reading = 42, timestamp = ''11/2/2026, 1:28:01 AM'',
       imageSrc = ''data:image/jpeg;base64,B''\<rparr>,
      \<lparr>id_r = 1793582820000, reading = 90417, timestamp = ''11/2/2026, 1:27:00 AM'',
       imageSrc = ''data:image/jpeg;base64,A''\<rparr>]\<rparr>"

text \<open>A camera that grants a stream of one track; its first frame arrives after 120 ms.\<close>

definition camera_ok :: start_env where
  "camera_ok =
     \<lparr>has_getUserMedia = True, protocol = ''https:'', hostname = ''example.org'',
      getUserMedia = Inr 1, metadata_at = Some 120, error_at = None, play = None\<rparr>"


definition capture_ok :: capture_env where
  "capture_ok =
     \<lparr>canvas = Inr ''data:image/jpeg;base64,B'', recognized = Inr 42,
      now = 1793582881000, localeString = ''11/2/2026, 1:28:01 AM''\<rparr>"


text \<open>Three readings, the first and the last under one identifier.\<close>

definition duplicate_ids :: state where
  "duplicate_ids = initial_state\<lparr>readings :=
     [\<lparr>id_r = 5, reading = 30, timestamp = ''c'', imageSrc = ''data:,''\<rparr>,
      \<lparr>id_r = 6, reading = 20, timestamp = ''b'', imageSrc = ''data:,''\<rparr>,
      \<lparr>id_r = 5, reading = 10, timestamp = ''a'', imageSrc = ''data:,''\<rparr>]\<rparr>"

text \<open>\<^verbatim>\<open>getContext('2d')\<close> answers \<^verbatim>\<open>null\<close>.\<close>

definition capture_no_context :: capture_env where
  "capture_no_context =
     capture_ok\<lparr>canvas := Inl \<lparr>err_name = Some ''TypeError'', err_message = Some ''ctx is null''\<rparr>\<rparr>"


section \<open>Properties\<close>

subsection \<open>Streams and tracks\<close>

lemma stop_tracks_nth:
  "h < length m \<Longrightarrow> stop_tracks h m ! h = map (\<lambda>_. Ended) (m ! h)"
  by (simp add: stop_tracks_def)

lemma length_stop_tracks [simp]: "length (stop_tracks h m) = length m"
  by (simp add: stop_tracks_def)

lemma stream_active_stop_tracks:
  "stream_active (stop_tracks h m) k \<longleftrightarrow> k \<noteq> h \<and> stream_active m k"
  by (auto simp: stream_active_def stop_tracks_def nth_list_update)

lemma stream_active_append:
  "stream_active (m @ [replicate n Live]) k \<longleftrightarrow>
     stream_active m k \<or> (k = length m \<and> 0 < n)"
  by (auto simp: stream_active_def nth_append less_Suc_eq)

lemma media_detach_video [simp]: "media (detach_video st) = media st"
  by (simp add: detach_video_def split: option.splits)

lemma streamRef_detach_video [simp]: "streamRef (detach_video st) = streamRef st"
  by (simp add: detach_video_def split: option.splits)

subsection \<open>stopCamera\<close>

lemma idle_stopCamera: "idle (stopCamera st)"
  by (simp add: idle_def stopCamera_def detach_video_def release_stream_def
      split: option.splits)

lemma stopCamera_idle_noop: "idle st \<Longrightarrow> stopCamera st = st"
  by (cases "videoRef st")
    (auto simp: idle_def stopCamera_def detach_video_def release_stream_def)

lemma stopCamera_releases:
  "streamRef st = Some h \<Longrightarrow> \<not> stream_active (media (stopCamera st)) h"
  by (simp add: stopCamera_def release_stream_def stream_active_stop_tracks)

text \<open>
  Claim C8. \<open>stopCamera\<close> ends every track of the stream in \<^verbatim>\<open>streamRef\<close> (the stream is
  no longer active, and each of its tracks is \<open>Ended\<close>), takes the stream off the video
  element and leaves the component idle. On an idle component it changes nothing, and
  stopping twice is stopping once.
\<close>

theorem stopCamera_releases_detaches_idempotent:
  "idle (stopCamera st)
   \<and> (\<forall>h. streamRef st = Some h \<longrightarrow>
          \<not> stream_active (media (stopCamera st)) h
          \<and> (h < length (media st) \<longrightarrow>
               media (stopCamera st) ! h = map (\<lambda>_. Ended) (media st ! h)))
   \<and> (idle st \<longrightarrow> stopCamera st = st)
   \<and> stopCamera (stopCamera st) = stopCamera st"
proof (intro conjI allI impI)
  show "idle (stopCamera st)" by (rule idle_stopCamera)
next
  fix h assume "streamRef st = Some h"
  then show "\<not> stream_active (media (stopCamera st)) h"
    by (rule stopCamera_releases)
next
  fix h assume "streamRef st = Some h" "h < length (media st)"
  then show "media (stopCamera st) ! h = map (\<lambda>_. Ended) (media st ! h)"
    by (simp add: stopCamera_def release_stream_def stop_tracks_nth)
next
  assume "idle st" then show "stopCamera st = st" by (rule stopCamera_idle_noop)
next
  show "stopCamera (stopCamera st) = stopCamera st"
    by (rule stopCamera_idle_noop [OF idle_stopCamera])
qed

theorem stopCamera_witness:
  "streamRef scanning_example = Some 0 \<and> 0 < length (media scanning_example)
   \<and> idle (stopCamera scanning_example)
   \<and> \<not> stream_active (media (stopCamera scanning_example)) 0
   \<and> media (stopCamera scanning_example) ! 0 = [Ended]
   \<and> idle initial_state \<and> stopCamera initial_state = initial_state
   \<and> stopCamera (stopCamera scanning_example) = stopCamera scanning_example"
  using stopCamera_releases_detaches_idempotent [of scanning_example]
    stopCamera_releases_detaches_idempotent [of initial_state]
  by (simp add: scanning_example_def initial_state_def idle_def)

subsection \<open>deleteReading\<close>

text \<open>
  Claim C9. Deleting an identifier that no record of the list carries returns the
  component as it was: the list, and every other field, is unchanged, and the handler has
  no failing branch.
\<close>

theorem deleteReading_absent_unchanged:
  "i \<notin> id_r ` set (readings st) \<Longrightarrow> deleteReading i st = st"
proof -
  assume "i \<notin> id_r ` set (readings st)"
  then have "filter (\<lambda>r. id_r r \<noteq> i) (readings st) = readings st"
    by (intro filter_True) auto
  then show ?thesis by (simp add: deleteReading_def)
qed

theorem deleteReading_absent_witness:
  "7 \<notin> id_r ` set (readings two_readings) \<and> deleteReading 7 two_readings = two_readings"
proof -
  have absent: "7 \<notin> id_r ` set (readings two_readings)"
    by (simp add: two_readings_def)
  from deleteReading_absent_unchanged [OF absent] absent show ?thesis by simp
qed

text \<open>
  Claim C10. After \<open>deleteReading i\<close> no record carries the identifier \<open>i\<close>, however many
  did; the list that remains is the old one with records left out (the order of the
  others is kept), every record with another identifier occurs as often as before, and
  nothing but the list has changed.
\<close>

theorem deleteReading_removes_all_keeps_order:
  "i \<notin> id_r ` set (readings (deleteReading i st))
   \<and> subseq (readings (deleteReading i st)) (readings st)
   \<and> (\<forall>r. id_r r \<noteq> i \<longrightarrow>
         count_list (readings (deleteReading i st)) r = count_list (readings st) r)
   \<and> (deleteReading i st)\<lparr>readings := readings st\<rparr> = st"
proof (intro conjI allI impI)
  show "i \<notin> id_r ` set (readings (deleteReading i st))"
    by (auto simp: deleteReading_def)
  show "subseq (readings (deleteReading i st)) (readings st)"
    by (simp add: deleteReading_def)
  show "(deleteReading i st)\<lparr>readings := readings st\<rparr> = st"
    by (simp add: deleteReading_def)
next
  fix r :: capture_record assume "id_r r \<noteq> i"
  then have "count_list (filter (\<lambda>r. id_r r \<noteq> i) xs) r = count_list xs r" for xs
    by (induction xs) auto
  then show "count_list (readings (deleteReading i st)) r = count_list (readings st) r"
    by (simp add: deleteReading_def)
qed

theorem deleteReading_removes_all_witness:
  "readings (deleteReading 5 duplicate_ids) =
     [\<lparr>id_r = 6, reading = 20, timestamp = ''b'', imageSrc = ''data:,''\<rparr>]
   \<and> 5 \<notin> id_r ` set (readings (deleteReading 5 duplicate_ids))
   \<and> count_list (readings (deleteReading 5 duplicate_ids))
        \<lparr>id_r = 6, reading = 20, timestamp = ''b'', imageSrc = ''data:,''\<rparr> = 1
   \<and> subseq (readings (deleteReading 5 duplicate_ids)) (readings duplicate_ids)"
  using deleteReading_removes_all_keeps_order [of 5 duplicate_ids]
  by (simp add: deleteReading_def duplicate_ids_def initial_state_def)

subsection \<open>exportReadings\<close>

lemma digit_not_newline: "d < 10 \<Longrightarrow> digit d \<noteq> CHR 0x0A"
proof -
  assume "d < 10"
  then have "digit d \<in> set ''0123456789''"
    unfolding digit_def by (intro nth_mem) simp
  then show ?thesis by auto
qed

lemma decimal_no_newline: "CHR 0x0A \<notin> set (decimal n)"
proof (induction n rule: decimal.induct)
  case (1 n)
  show ?case
  proof (cases "n < 10")
    case True
    then show ?thesis using digit_not_newline [of n] by (subst decimal.simps) auto
  next
    case False
    have "n mod 10 < 10" by simp
    then have "digit (n mod 10) \<noteq> CHR 0x0A" by (rule digit_not_newline)
    with False 1 show ?thesis by (subst decimal.simps) auto
  qed
qed

lemma csv_row_no_newline:
  "CHR 0x0A \<notin> set (timestamp r) \<Longrightarrow> CHR 0x0A \<notin> set (csv_row r)"
  by (simp add: csv_row_def decimal_no_newline)

lemma csv_row_not_empty: "csv_row r \<noteq> []"
  by (simp add: csv_row_def)

lemma split_nl_not_Nil [simp]: "split_nl s \<noteq> []"
  by (induction s) (auto split: list.splits)

lemma split_nl_one_line: "CHR 0x0A \<notin> set a \<Longrightarrow> split_nl a = [a]"
  by (induction a) auto

lemma split_nl_first_line:
  "CHR 0x0A \<notin> set a \<Longrightarrow> split_nl (a @ CHR 0x0A # b) = a # split_nl b"
  by (induction a) auto

lemma split_join_nl:
  "xs \<noteq> [] \<Longrightarrow> \<forall>x\<in>set xs. CHR 0x0A \<notin> set x \<Longrightarrow> split_nl (join_nl xs) = xs"
proof (induction xs rule: join_nl.induct)
  case 1
  then show ?case by simp
next
  case (2 x)
  then show ?case by (simp add: split_nl_one_line)
next
  case (3 x y ys)
  then show ?case by (simp add: split_nl_first_line)
qed

lemma text_lines_join_nl:
  assumes "xs \<noteq> []" "\<forall>x\<in>set xs. CHR 0x0A \<notin> set x" "last xs \<noteq> []"
  shows "text_lines (join_nl xs) = xs"
  using assms by (simp add: text_lines_def split_join_nl)

lemma join_nl_Cons: "ys \<noteq> [] \<Longrightarrow> join_nl (x # ys) = x @ CHR 0x0A # join_nl ys"
  by (cases ys) auto

lemma exportReadings_same_text:
  "readings st \<noteq> [] \<Longrightarrow> exportReadings_ocr st = exportReadings_p0 st"
  by (simp add: exportReadings_ocr_def exportReadings_p0_def join_nl_Cons)

lemma decimal_42: "decimal 42 = ''42''"
  by (simp add: decimal.simps [of 42] decimal.simps [of 4] digit_def)

lemma decimal_90417: "decimal 90417 = ''90417''"
  by (simp add: decimal.simps [of 90417] decimal.simps [of 9041] decimal.simps [of 904]
      decimal.simps [of 90] decimal.simps [of 9] digit_def)

text \<open>
  Claim C6. For a list of \<open>N\<close> records whose timestamps hold no newline (a timestamp is
  the text of \<^verbatim>\<open>toLocaleString\<close>), the exported text of either file has exactly \<open>N + 1\<close>
  lines: the header \<^verbatim>\<open>Timestamp,Reading\<close>, then the row \<^verbatim>\<open><timestamp>,<reading>\<close> of each
  record in the order of the list, which is newest first.
\<close>

theorem exportReadings_lines:
  assumes "\<forall>r\<in>set (readings st). CHR 0x0A \<notin> set (timestamp r)"
  shows "text_lines (exportReadings_p0 st) = ''Timestamp,Reading'' # map csv_row (readings st)
    \<and> text_lines (exportReadings_ocr st) = ''Timestamp,Reading'' # map csv_row (readings st)
    \<and> length (text_lines (exportReadings_p0 st)) = Suc (length (readings st))
    \<and> length (text_lines (exportReadings_ocr st)) = Suc (length (readings st))"
proof -
  let ?H = "''Timestamp,Reading''"
  let ?rows = "map csv_row (readings st)"
  have rows: "\<forall>x\<in>set (?H # ?rows). CHR 0x0A \<notin> set x"
    using assms by (auto simp: csv_row_no_newline)
  have last: "last (?H # ?rows) \<noteq> []"
    by (cases "readings st" rule: rev_cases) (auto simp: csv_row_not_empty)
  have p0: "text_lines (exportReadings_p0 st) = ?H # ?rows"
    unfolding exportReadings_p0_def
    by (rule text_lines_join_nl [OF _ rows last]) simp
  have ocr: "text_lines (exportReadings_ocr st) = ?H # ?rows"
  proof (cases "readings st = []")
    case True
    then show ?thesis
      by (simp add: exportReadings_ocr_def text_lines_def)
  next
    case False
    with p0 show ?thesis by (simp add: exportReadings_same_text)
  qed
  from p0 ocr show ?thesis by simp
qed

theorem exportReadings_lines_witness:
  "text_lines (exportReadings_p0 two_readings) =
     [''Timestamp,Reading'', ''11/2/2026, 1:28:01 AM,42'', ''11/2/2026, 1:27:00 AM,90417'']
   \<and> text_lines (exportReadings_ocr two_readings) =
     [''Timestamp,Reading'', ''11/2/2026, 1:28:01 AM,42'', ''11/2/2026, 1:27:00 AM,90417'']
   \<and> length (text_lines (exportReadings_p0 two_readings)) = 3
   \<and> text_lines (exportReadings_p0 initial_state) = [''Timestamp,Reading'']
   \<and> text_lines (exportReadings_ocr initial_state) = [''Timestamp,Reading'']"
  using exportReadings_lines [of two_readings] exportReadings_lines [of initial_state]
  by (simp add: two_readings_def initial_state_def csv_row_def decimal_42 decimal_90417)

subsection \<open>Appending a reading\<close>















subsection \<open>One stream at a time\<close>

lemma owned_iff:
  "owned st \<longleftrightarrow> (\<forall>h. stream_active (media st) h \<longrightarrow> streamRef st = Some h)"
  by (auto simp: owned_def stream_active_def)

lemma no_active_streams_iff:
  "active_streams (media st) = [] \<longleftrightarrow> (\<forall>h. \<not> stream_active (media st) h)"
  by (auto simp: active_streams_def filter_empty_conv stream_active_def)

lemma no_active_owned: "active_streams (media st) = [] \<Longrightarrow> owned st"
  by (simp add: no_active_streams_iff owned_iff)

lemma owned_at_most_one:
  assumes "owned st"
  shows "length (active_streams (media st)) \<le> 1"
proof -
  let ?xs = "active_streams (media st)"
  let ?held = "case streamRef st of None \<Rightarrow> {} | Some h \<Rightarrow> {h}"
  have d: "distinct ?xs" by (simp add: active_streams_def)
  have "set ?xs \<subseteq> ?held"
    using assms by (auto simp: active_streams_def owned_iff split: option.splits)
  then have "card (set ?xs) \<le> card ?held"
    by (intro card_mono) (auto split: option.splits)
  also have "\<dots> \<le> 1" by (simp split: option.splits)
  finally show ?thesis using d by (simp add: distinct_card)
qed

lemma owned_idle_no_active: "owned st \<Longrightarrow> idle st \<Longrightarrow> active_streams (media st) = []"
  by (simp add: no_active_streams_iff owned_iff idle_def)

lemma no_active_release_stream: "owned st \<Longrightarrow> active_streams (media (release_stream st)) = []"
  by (auto simp: owned_iff no_active_streams_iff release_stream_def stream_active_stop_tracks
      split: option.splits)

lemma no_active_stop_old_tracks:
  "owned st \<Longrightarrow> active_streams (media (stop_old_tracks st)) = []"
  by (auto simp: owned_iff no_active_streams_iff stop_old_tracks_def stream_active_stop_tracks
      split: option.splits)

lemma owned_acquire: "active_streams (media st) = [] \<Longrightarrow> owned (acquire n st)"
  by (auto simp: owned_iff no_active_streams_iff acquire_def stream_active_append)

lemma owned_bind_video: "owned (bind_video v st) = owned st"
  by (simp add: owned_iff bind_video_def)

lemma no_active_stopCamera: "owned st \<Longrightarrow> active_streams (media (stopCamera st)) = []"
  using no_active_release_stream [of st] by (simp add: stopCamera_def)

lemma idle_start_catch_p0: "idle (start_catch_p0 err st)"
  by (simp add: idle_def start_catch_p0_def detach_video_def release_stream_def
      split: option.splits)


lemma no_active_start_catch_p0:
  assumes "owned st"
  shows "active_streams (media (start_catch_p0 err st)) = []"
proof -
  let ?s = "st\<lparr>error := Some (errorMessage_p0 err), isScanning := False\<rparr>"
  have "owned ?s" using assms by (simp add: owned_iff)
  then have "active_streams (media (release_stream ?s)) = []"
    by (rule no_active_release_stream)
  then show ?thesis by (simp add: start_catch_p0_def)
qed

lemma owned_steps_p0:
  assumes "owned st"
  shows "\<forall>s \<in> set (startCamera_steps_p0 env st). owned s"
proof -
  let ?st0 = "st\<lparr>error := None, capturedImage := None, ocrResult := []\<rparr>"
  let ?st1 = "stop_old_tracks ?st0"
  have o0: "owned ?st0" using assms by (simp add: owned_iff)
  have q1: "active_streams (media ?st1) = []" using o0 by (rule no_active_stop_old_tracks)
  have o1: "owned ?st1" using q1 by (rule no_active_owned)
  have o2: "owned (acquire n ?st1)" for n using q1 by (rule owned_acquire)
  have o3: "owned (bind_video v (acquire n ?st1))" for n v
    using o2 by (simp add: owned_bind_video)
  have c: "owned s \<Longrightarrow> owned (start_catch_p0 err s)" for s err
    by (rule no_active_owned [OF no_active_start_catch_p0])
  have o4: "owned ((bind_video v (acquire n ?st1))\<lparr>isScanning := True\<rparr>)" for n v
    using o3 [of v n] by (simp add: owned_iff)
  show ?thesis
    unfolding startCamera_steps_p0_def Let_def
    by (auto simp: o0 o1 o2 o3 o4 c split: sum.splits option.splits wait_result.splits)
qed

lemma steps_p0_not_Nil: "startCamera_steps_p0 env st \<noteq> []"
  unfolding startCamera_steps_p0_def Let_def
  by (auto split: sum.splits option.splits wait_result.splits)

lemma owned_startCamera_p0: "owned st \<Longrightarrow> owned (startCamera_p0 env st)"
  using owned_steps_p0 [of st env] steps_p0_not_Nil [of env st]
  by (simp add: startCamera_p0_def)

lemma owned_trace_p0: "owned st \<Longrightarrow> \<forall>s \<in> set (trace_p0 ops st). owned s"
proof (induction ops st rule: trace_p0.induct)
  case (1 st)
  then show ?case by simp
next
  case (2 env ops st)
  then show ?case
    using owned_steps_p0 [of st env] owned_startCamera_p0 [of st env] by auto
next
  case (3 ops st)
  then show ?case using no_active_owned [OF no_active_stopCamera [of st]] by auto
qed

lemma trace_p0_not_Nil [simp]: "trace_p0 ops st \<noteq> []"
  by (induction ops st rule: trace_p0.induct) auto

lemma run_p0_last_of_trace: "run_p0 ops st = last (trace_p0 ops st)"
  by (induction ops st rule: trace_p0.induct) auto

text \<open>
  The part_000 copy keeps what claim C1 asks: whatever starts and stops are run from the
  mounted component, in every state it passes through (the states inside a start
  included) at most one stream has a live track, and that stream is the one in
  \<^verbatim>\<open>streamRef\<close>. A start stops the tracks of the stream it holds before it asks for a new
  one, and a stop leaves no stream active.
\<close>

theorem p0_at_most_one_active_stream:
  "(\<forall>s \<in> set (trace_p0 ops initial_state).
       owned s \<and> length (active_streams (media s)) \<le> 1)
   \<and> (owned st \<longrightarrow> active_streams (media (stop_old_tracks st)) = []
                  \<and> active_streams (media (stopCamera st)) = [])"
proof -
  have "owned initial_state" by (simp add: owned_def initial_state_def)
  then have "\<forall>s \<in> set (trace_p0 ops initial_state). owned s" by (rule owned_trace_p0)
  then show ?thesis
    using owned_at_most_one no_active_stop_old_tracks no_active_stopCamera by blast
qed

text \<open>
  Claim C1. The ocr.js copy does not keep it. Its \<open>startCamera\<close> never stops the tracks of
  the stream it holds, and its \<^verbatim>\<open>catch\<close> block keeps a stream it has obtained. From the
  mounted component (no video element yet) a start obtains a stream and fails; a second
  start obtains another and overwrites \<^verbatim>\<open>streamRef\<close>: two streams are active at once,
  and the first, which no ref names any more, is still active after a stop.
\<close>

theorem startCamera_ocr_orphans_stream:
  "media (run_ocr [Start camera_ok, Start camera_ok] initial_state) = [[Live], [Live]]
   \<and> streamRef (run_ocr [Start camera_ok, Start camera_ok] initial_state) = Some 1
   \<and> active_streams (media (run_ocr [Start camera_ok, Start camera_ok] initial_state)) = [0, 1]
   \<and> active_streams (media (run_ocr [Start camera_ok, Start camera_ok, Stop] initial_state)) = [0]"
  by (simp add: startCamera_ocr_def start_catch_ocr_def acquire_def camera_ok_def
      initial_state_def Error_def active_streams_def stream_active_def upt_rec
      stopCamera_def release_stream_def detach_video_def stop_tracks_def)

subsection \<open>A start that fails\<close>

lemma startCamera_p0_outcome:
  "(error (startCamera_p0 env st) = None \<and> isScanning (startCamera_p0 env st))
   \<or> (\<exists>err s. startCamera_p0 env st = start_catch_p0 err s)"
  unfolding startCamera_p0_def startCamera_steps_p0_def Let_def
  by (auto simp: acquire_def bind_video_def stop_old_tracks_def
      split: sum.splits option.splits wait_result.splits)

text \<open>
  The part_000 copy keeps what claim C3 asks. A start has failed when it leaves an error
  message. Wherever the failure arose (no capture API, an insecure page, a rejected
  request, no video element, the wait for the first frame, \<^verbatim>\<open>play()\<close>), the component is
  then idle, and when every live stream was the one in \<^verbatim>\<open>streamRef\<close> before the start,
  no stream is active after it: the stream just obtained has been released.
\<close>

theorem startCamera_p0_failure_releases:
  assumes "error (startCamera_p0 env st) \<noteq> None"
  shows "idle (startCamera_p0 env st)
    \<and> (owned st \<longrightarrow> active_streams (media (startCamera_p0 env st)) = [])"
proof -
  from assms startCamera_p0_outcome [of env st]
  obtain err s where "startCamera_p0 env st = start_catch_p0 err s" by auto
  then have i: "idle (startCamera_p0 env st)" by (simp add: idle_start_catch_p0)
  then show ?thesis
    using owned_startCamera_p0 [of st env] owned_idle_no_active by blast
qed

text \<open>
  Claim C3. The ocr.js copy does not keep it: its \<^verbatim>\<open>catch\<close> block sets the message and
  \<^verbatim>\<open>isScanning\<close> and nothing else. A start from the mounted component obtains a stream,
  finds no video element and fails; the stream stays in \<^verbatim>\<open>streamRef\<close> with its track
  live, and the component is not idle.
\<close>

theorem startCamera_ocr_failure_keeps_stream:
  "startCamera_ocr camera_ok initial_state =
     Done (initial_state\<lparr>error := Some ''Error accessing camera: Video element not initialized'',
                         streamRef := Some 0, media := [[Live]]\<rparr>)
   \<and> stream_active (media (state_of (startCamera_ocr camera_ok initial_state))) 0
   \<and> \<not> idle (state_of (startCamera_ocr camera_ok initial_state))"
  by (simp add: startCamera_ocr_def start_catch_ocr_def acquire_def camera_ok_def
      initial_state_def Error_def stream_active_def idle_def)

subsection \<open>The wait for the first frame\<close>






lemma startCamera_ocr_no_video:
  assumes "videoRef st = None"
  shows "\<exists>s. startCamera_ocr env st = Done s \<and> videoRef s = None \<and> \<not> isScanning s"
  using assms
  by (auto simp: startCamera_ocr_def start_catch_ocr_def acquire_def Let_def split: sum.splits)





subsection \<open>A capture before the first frame\<close>






subsection \<open>Stopping after a capture\<close>










text \<open>
  The one capture of ocr.js that has passed the readiness test and does not end: its
  canvas calls stand before the \<^verbatim>\<open>try\<close>, so an exception of theirs (\<^verbatim>\<open>getContext\<close> answering
  \<^verbatim>\<open>null\<close>) leaves the handler, the promise is rejected, and \<open>stopCamera\<close> is not reached.
  part_000 catches it and stops the camera.
\<close>

lemma captureAndProcess_ocr_exception_leaves:
  "captureAndProcess_ocr capture_no_context scanning_example =
     (scanning_example\<lparr>isProcessing := True\<rparr>,
      Some \<lparr>err_name = Some ''TypeError'', err_message = Some ''ctx is null''\<rparr>)
   \<and> idle (fst (captureAndProcess_p0 capture_no_context scanning_example))
   \<and> media (fst (captureAndProcess_p0 capture_no_context scanning_example)) = [[Ended]]"
  by (simp add: captureAndProcess_ocr_def captureAndProcess_begin_ocr_def
      captureAndProcess_p0_def captureAndProcess_begin_p0_def capture_finally_p0_def
      capture_catch_p0_def idle_def capture_no_context_def capture_ok_def
      scanning_example_def stopCamera_def release_stream_def
      detach_video_def stop_tracks_def)

subsection \<open>What the mounted component reaches\<close>

text \<open>
  The video element is rendered only while \<^verbatim>\<open>isScanning\<close> holds, and both files set
  \<^verbatim>\<open>isScanning\<close> only in a start that has found the element. From a state with neither,
  as the mounted component is, no run of starts and stops of either file reaches one:
  every start fails for want of the element, before the wait for the first frame.
\<close>

lemma stopCamera_no_video:
  "videoRef st = None \<Longrightarrow> videoRef (stopCamera st) = None \<and> \<not> isScanning (stopCamera st)"
  by (simp add: stopCamera_def detach_video_def release_stream_def split: option.splits)

lemma startCamera_p0_no_video:
  assumes "videoRef st = None"
  shows "videoRef (startCamera_p0 env st) = None \<and> \<not> isScanning (startCamera_p0 env st)"
  using assms
  by (auto simp: startCamera_p0_def startCamera_steps_p0_def start_catch_p0_def acquire_def
      stop_old_tracks_def detach_video_def release_stream_def Let_def
      split: sum.splits option.splits)

lemma run_ocr_never_scanning:
  "videoRef st = None \<Longrightarrow> \<not> isScanning st \<Longrightarrow>
     videoRef (run_ocr ops st) = None \<and> \<not> isScanning (run_ocr ops st)"
proof (induction ops st rule: run_ocr.induct)
  case (1 st)
  then show ?case by simp
next
  case (2 env ops st)
  from startCamera_ocr_no_video [OF 2(2), of env]
  obtain s where "startCamera_ocr env st = Done s" "videoRef s = None" "\<not> isScanning s"
    by blast
  then show ?case using 2(1) by simp
next
  case (3 ops st)
  then show ?case using stopCamera_no_video [of st] by simp
qed

lemma run_p0_never_scanning:
  "videoRef st = None \<Longrightarrow> \<not> isScanning st \<Longrightarrow>
     videoRef (run_p0 ops st) = None \<and> \<not> isScanning (run_p0 ops st)"
proof (induction ops st rule: run_p0.induct)
  case (1 st)
  then show ?case by simp
next
  case (2 env ops st)
  then show ?case using startCamera_p0_no_video [of st env] by simp
next
  case (3 ops st)
  then show ?case using stopCamera_no_video [of st] by simp
qed

end
